theory Spec2Isabelle
  imports Main "HOL-Library.Sublist"
begin

section \<open>JavaScript values used by the renderer\<close>

text \<open>
  The renderer is plain JavaScript. A property that a caller may leave out is modelled as
  a \<open>string option\<close>: \<open>None\<close> is the absent property (\<open>undefined\<close>), \<open>Some s\<close> the string
  \<open>s\<close>. Interpolating \<open>${x}\<close> in a template literal prints a string as it is and an absent
  value as the nine letters \<open>undefined\<close>; the condition of \<open>x ? a : b\<close> and the operand of
  \<open>!x\<close> are true exactly for a string that is not empty.
\<close>

definition js_str :: "string option \<Rightarrow> string" where
  "js_str v = (case v of None \<Rightarrow> ''undefined'' | Some s \<Rightarrow> s)"

definition truthy :: "string option \<Rightarrow> bool" where
  "truthy v = (case v of None \<Rightarrow> False | Some s \<Rightarrow> s \<noteq> [])"

text \<open>
  \<open>String.prototype.trim\<close> removes white space from both ends. Every template of the
  renderer begins and ends with literal text, so only the ASCII white space characters
  (tab, line feed, vertical tab, form feed, carriage return, space) can be met.
\<close>

definition js_space :: "char \<Rightarrow> bool" where
  "js_space c = (c = CHR 0x09 \<or> c = CHR 0x0A \<or> c = CHR 0x0B \<or> c = CHR 0x0C
                 \<or> c = CHR 0x0D \<or> c = CHR 0x20)"

definition trimStart :: "string \<Rightarrow> string" where
  "trimStart s = dropWhile js_space s"

definition trimEnd :: "string \<Rightarrow> string" where
  "trimEnd s = rev (dropWhile js_space (rev s))"

definition trim :: "string \<Rightarrow> string" where
  "trim s = trimEnd (trimStart s)"

text \<open>\<open>Array.prototype.join\<close>: the elements with the separator between neighbours.\<close>

fun join :: "string \<Rightarrow> string list \<Rightarrow> string" where
  "join sep [] = []"
| "join sep [s] = s"
| "join sep (s # t # ts) = s @ sep @ join sep (t # ts)"

section \<open>Design tokens (templates/generator.js, loadDesignTokens)\<close>

text \<open>
  The token object has a fixed shape, so each nested object is a record. Two leaves are
  renamed because their names are taken: \<open>text\<close> is \<open>text_tok\<close> and \<open>size\<close> is \<open>size_tok\<close>.
\<close>

record colors =
  primary :: string
  onPrimary :: string
  secondary :: string
  background :: string
  surface :: string
  text_tok :: string
  textSecondary :: string

record font =
  family :: string
  size_tok :: string
  weight :: string
  lineHeight :: string

record fonts =
  heading :: font
  body :: font

record spacing =
  xs :: string
  sm :: string
  md :: string
  lg :: string
  xl :: string
  xxl :: string

record radius =
  button :: string
  card :: string

record tokens =
  colors :: colors
  fonts :: fonts
  spacing :: spacing
  radius :: radius

text \<open>
  An override object carries any subset of the four top-level keys. The object spread
  \<open>{...a, ...b}\<close> copies the own enumerable keys of \<open>a\<close> and then those of \<open>b\<close>, so a
  top-level key present in \<open>b\<close> replaces the whole value of that key.
\<close>

record token_override =
  o_colors :: "colors option"
  o_fonts :: "fonts option"
  o_spacing :: "spacing option"
  o_radius :: "radius option"

definition empty_override :: token_override where
  "empty_override = \<lparr> o_colors = None, o_fonts = None, o_spacing = None, o_radius = None \<rparr>"

definition spread :: "tokens \<Rightarrow> token_override \<Rightarrow> tokens" where
  "spread a b =
     \<lparr> colors = (case o_colors b of None \<Rightarrow> colors a | Some v \<Rightarrow> v),
       fonts = (case o_fonts b of None \<Rightarrow> fonts a | Some v \<Rightarrow> v),
       spacing = (case o_spacing b of None \<Rightarrow> spacing a | Some v \<Rightarrow> v),
       radius = (case o_radius b of None \<Rightarrow> radius a | Some v \<Rightarrow> v) \<rparr>"

definition defaultTokens :: tokens where
  "defaultTokens =
     \<lparr> colors =
         \<lparr> primary = ''#2563eb'',
           onPrimary = ''#ffffff'',
           secondary = ''#64748b'',
           background = ''#f8fafc'',
           surface = ''#ffffff'',
           text_tok = ''#1e293b'',
           textSecondary = ''#64748b'' \<rparr>,
       fonts =
         \<lparr> heading =
             \<lparr> family = ''Arial, sans-serif'', size_tok = ''24px'', weight = ''700'',
               lineHeight = ''1.2'' \<rparr>,
           body =
             \<lparr> family = ''Arial, sans-serif'', size_tok = ''16px'', weight = ''400'',
               lineHeight = ''1.5'' \<rparr> \<rparr>,
       spacing =
         \<lparr> xs = ''4px'', sm = ''8px'', md = ''16px'', lg = ''24px'', xl = ''32px'',
           xxl = ''48px'' \<rparr>,
       radius = \<lparr> button = ''6px'', card = ''8px'' \<rparr> \<rparr>"

text \<open>
  \<open>templateOverrides\<close> is an object literal with three own keys. A property read with any
  other key walks the prototype chain: the names of \<open>Object.prototype\<close> give a built-in
  function or object, every other name gives \<open>undefined\<close>.
\<close>

datatype property = Undefined | Own token_override | Inherited

definition object_prototype_keys :: "string list" where
  "object_prototype_keys =
     [''constructor'', ''__defineGetter__'', ''__defineSetter__'', ''hasOwnProperty'',
      ''__lookupGetter__'', ''__lookupSetter__'', ''isPrototypeOf'',
      ''propertyIsEnumerable'', ''toString'', ''valueOf'', ''__proto__'',
      ''toLocaleString'']"

definition templateOverrides :: "string \<Rightarrow> property" where
  "templateOverrides key =
     (if key = ''cart_abandon'' then
        Own (empty_override \<lparr> o_colors := Some ((colors defaultTokens) \<lparr> primary := ''#dc2626'' \<rparr>) \<rparr>)
      else if key = ''post_purchase'' then
        Own (empty_override \<lparr> o_colors := Some ((colors defaultTokens) \<lparr> primary := ''#059669'' \<rparr>) \<rparr>)
      else if key = ''order_confirmation'' then
        Own (empty_override \<lparr> o_colors := Some ((colors defaultTokens) \<lparr> primary := ''#2563eb'' \<rparr>) \<rparr>)
      else if key \<in> set object_prototype_keys then Inherited
      else Undefined)"

text \<open>
  \<open>templateOverrides[templateType] || {}\<close> followed by the spread: \<open>undefined\<close> is replaced
  by the empty object, and a built-in of \<open>Object.prototype\<close> has no own enumerable
  property, so spreading it copies nothing.
\<close>

definition own_enumerable :: "property \<Rightarrow> token_override" where
  "own_enumerable p =
     (case p of Undefined \<Rightarrow> empty_override | Own ov \<Rightarrow> ov | Inherited \<Rightarrow> empty_override)"

definition loadDesignTokens :: "string option \<Rightarrow> tokens" where
  "loadDesignTokens templateType =
     spread defaultTokens (own_enumerable (templateOverrides (js_str templateType)))"

section \<open>Content blocks and documents\<close>

text \<open>
  Blocks are duck-typed objects: the dispatcher reads \<open>type\<close> and each component reads the
  properties it needs, whatever else the object carries. A block is therefore one record
  with every property that some component reads (and \<open>customHtml\<close>, which producers may
  send), each of them optional.
\<close>

record item =
  sku :: "string option"
  name :: "string option"
  price :: "string option"
  imageUrl :: "string option"
  url :: "string option"

record block =
  type :: "string option"
  headline :: "string option"
  subcopy :: "string option"
  imageUrl :: "string option"
  customHtml :: "string option"
  title :: "string option"
  items :: "item list option"
  legal :: "string option"
  preferencesUrl :: "string option"
  unsubscribeUrl :: "string option"

text \<open>The document; its property \<open>locale\<close> is \<open>locale_id\<close> here.\<close>

record template =
  locale_id :: "string option"
  templateType :: "string option"
  subject :: "string option"
  preheader :: "string option"
  blocks :: "block list option"

section \<open>Hero (components/hero.js)\<close>

text \<open>The two conditional parts of the template, \<open>${imageUrl ? ... : ''}\<close> and
  \<open>${subcopy ? ... : ''}\<close>, are named so that they can be referred to.\<close>

definition hero_image :: "block \<Rightarrow> tokens \<Rightarrow> string" where
  \<open>hero_image block tokens =
    (if truthy (block.imageUrl block) then
     ''\<newline>'' @
     ''        <mj-image\<newline>'' @
     ''          src="'' @ js_str (block.imageUrl block) @ ''"\<newline>'' @
     ''          alt="'' @ js_str (headline block) @ ''"\<newline>'' @
     ''          align="center"\<newline>'' @
     ''          border-radius="'' @ card (radius tokens) @ ''"\<newline>'' @
     ''          padding-bottom="'' @ lg (spacing tokens) @ ''"\<newline>'' @
     ''        />\<newline>'' @
     ''        ''
     else [])\<close>

definition hero_subcopy :: "block \<Rightarrow> tokens \<Rightarrow> string" where
  \<open>hero_subcopy block tokens =
    (if truthy (subcopy block) then
     ''\<newline>'' @
     ''        <mj-text\<newline>'' @
     ''          align="center"\<newline>'' @
     ''          font-size="'' @ size_tok (body (fonts tokens)) @ ''"\<newline>'' @
     ''          color="'' @ textSecondary (colors tokens) @ ''"\<newline>'' @
     ''          padding-bottom="'' @ lg (spacing tokens) @ ''"\<newline>'' @
     ''        >\<newline>'' @
     ''          '' @ js_str (subcopy block) @ ''\<newline>'' @
     ''        </mj-text>\<newline>'' @
     ''        ''
     else [])\<close>

definition heroComponent :: "block \<Rightarrow> tokens \<Rightarrow> string" where
  \<open>heroComponent block tokens = trim (
     ''\<newline>'' @
     ''    <mj-section background-color="'' @ surface (colors tokens) @ ''" css-class="section-spacing">\<newline>'' @
     ''      <mj-column>\<newline>'' @
     ''        '' @ hero_image block tokens @ ''\<newline>'' @
     ''\<newline>'' @
     ''        <mj-text\<newline>'' @
     ''          align="center"\<newline>'' @
     ''          font-size="'' @ size_tok (heading (fonts tokens)) @ ''"\<newline>'' @
     ''          font-weight="'' @ weight (heading (fonts tokens)) @ ''"\<newline>'' @
     ''          line-height="'' @ lineHeight (heading (fonts tokens)) @ ''"\<newline>'' @
     ''          color="'' @ text_tok (colors tokens) @ ''"\<newline>'' @
     ''          padding-bottom="'' @ md (spacing tokens) @ ''"\<newline>'' @
     ''        >\<newline>'' @
     ''          '' @ js_str (headline block) @ ''\<newline>'' @
     ''        </mj-text>\<newline>'' @
     ''\<newline>'' @
     ''        '' @ hero_subcopy block tokens @ ''\<newline>'' @
     ''      </mj-column>\<newline>'' @
     ''    </mj-section>\<newline>'' @
     ''  '')\<close>

section \<open>Items (components/items.js)\<close>

text \<open>The arrow function mapped over the items: one column per item.\<close>

definition items_column :: "tokens \<Rightarrow> item \<Rightarrow> string" where
  \<open>items_column tokens item =
     ''\<newline>'' @
     ''    <mj-column width="33.33%" padding="'' @ sm (spacing tokens) @ ''">\<newline>'' @
     ''      <mj-image\<newline>'' @
     ''        src="'' @ js_str (item.imageUrl item) @ ''"\<newline>'' @
     ''        alt="'' @ js_str (name item) @ ''"\<newline>'' @
     ''        align="center"\<newline>'' @
     ''        border-radius="'' @ card (radius tokens) @ ''"\<newline>'' @
     ''        padding-bottom="'' @ sm (spacing tokens) @ ''"\<newline>'' @
     ''        href="'' @ js_str (url item) @ ''"\<newline>'' @
     ''      />\<newline>'' @
     ''\<newline>'' @
     ''      <mj-text\<newline>'' @
     ''        align="center"\<newline>'' @
     ''        font-size="14px"\<newline>'' @
     ''        font-weight="600"\<newline>'' @
     ''        color="'' @ text_tok (colors tokens) @ ''"\<newline>'' @
     ''        padding-bottom="'' @ xs (spacing tokens) @ ''"\<newline>'' @
     ''      >\<newline>'' @
     ''        '' @ js_str (name item) @ ''\<newline>'' @
     ''      </mj-text>\<newline>'' @
     ''\<newline>'' @
     ''      <mj-text\<newline>'' @
     ''        align="center"\<newline>'' @
     ''        font-size="'' @ size_tok (body (fonts tokens)) @ ''"\<newline>'' @
     ''        color="'' @ primary (colors tokens) @ ''"\<newline>'' @
     ''        font-weight="700"\<newline>'' @
     ''        padding-bottom="'' @ sm (spacing tokens) @ ''"\<newline>'' @
     ''      >\<newline>'' @
     ''        '' @ js_str (price item) @ ''\<newline>'' @
     ''      </mj-text>\<newline>'' @
     ''\<newline>'' @
     ''      <mj-button\<newline>'' @
     ''        href="'' @ js_str (url item) @ ''"\<newline>'' @
     ''        background-color="'' @ primary (colors tokens) @ ''"\<newline>'' @
     ''        color="'' @ onPrimary (colors tokens) @ ''"\<newline>'' @
     ''        font-size="14px"\<newline>'' @
     ''        padding="'' @ xs (spacing tokens) @ '' '' @ md (spacing tokens) @ ''"\<newline>'' @
     ''        border-radius="'' @ button (radius tokens) @ ''"\<newline>'' @
     ''      >\<newline>'' @
     ''        Visualizza\<newline>'' @
     ''      </mj-button>\<newline>'' @
     ''    </mj-column>\<newline>'' @
     ''  ''\<close>

definition itemsComponent :: "block \<Rightarrow> tokens \<Rightarrow> string" where
  \<open>itemsComponent block tokens =
    (case items block of
       None \<Rightarrow> []
     | Some its \<Rightarrow>
         if length its = 0 then []
         else
           let itemsMarkup = join [] (map (items_column tokens) its)
           in trim (
     ''\<newline>'' @
     ''    <mj-section background-color="'' @ background (colors tokens) @ ''" css-class="section-spacing">\<newline>'' @
     ''      <mj-column>\<newline>'' @
     ''        <mj-text\<newline>'' @
     ''          align="center"\<newline>'' @
     ''          font-size="'' @ size_tok (heading (fonts tokens)) @ ''"\<newline>'' @
     ''          font-weight="'' @ weight (heading (fonts tokens)) @ ''"\<newline>'' @
     ''          color="'' @ text_tok (colors tokens) @ ''"\<newline>'' @
     ''          padding-bottom="'' @ lg (spacing tokens) @ ''"\<newline>'' @
     ''        >\<newline>'' @
     ''          '' @ js_str (title block) @ ''\<newline>'' @
     ''        </mj-text>\<newline>'' @
     ''      </mj-column>\<newline>'' @
     ''    </mj-section>\<newline>'' @
     ''\<newline>'' @
     ''    <mj-section background-color="'' @ background (colors tokens) @ ''">\<newline>'' @
     ''      '' @ itemsMarkup @ ''\<newline>'' @
     ''    </mj-section>\<newline>'' @
     ''  ''))\<close>

section \<open>Recommendations (components/recommendations.js)\<close>

text \<open>\<open>Array.prototype.slice\<close> with two indices that are not negative.\<close>

definition slice :: "nat \<Rightarrow> nat \<Rightarrow> 'a list \<Rightarrow> 'a list" where
  "slice start stop l = take (stop - start) (drop start l)"

definition recommendations_column :: "tokens \<Rightarrow> item \<Rightarrow> string" where
  \<open>recommendations_column tokens item =
     ''\<newline>'' @
     ''    <mj-column width="33.33%" padding="'' @ sm (spacing tokens) @ ''">\<newline>'' @
     ''      <mj-image\<newline>'' @
     ''        src="'' @ js_str (item.imageUrl item) @ ''"\<newline>'' @
     ''        alt="'' @ js_str (name item) @ ''"\<newline>'' @
     ''        align="center"\<newline>'' @
     ''        border-radius="'' @ card (radius tokens) @ ''"\<newline>'' @
     ''        padding-bottom="'' @ sm (spacing tokens) @ ''"\<newline>'' @
     ''        href="'' @ js_str (url item) @ ''"\<newline>'' @
     ''      />\<newline>'' @
     ''\<newline>'' @
     ''      <mj-text\<newline>'' @
     ''        align="center"\<newline>'' @
     ''        font-size="14px"\<newline>'' @
     ''        font-weight="600"\<newline>'' @
     ''        color="'' @ text_tok (colors tokens) @ ''"\<newline>'' @
     ''        padding-bottom="'' @ xs (spacing tokens) @ ''"\<newline>'' @
     ''      >\<newline>'' @
     ''        '' @ js_str (name item) @ ''\<newline>'' @
     ''      </mj-text>\<newline>'' @
     ''\<newline>'' @
     ''      <mj-text\<newline>'' @
     ''        align="center"\<newline>'' @
     ''        font-size="'' @ size_tok (body (fonts tokens)) @ ''"\<newline>'' @
     ''        color="'' @ primary (colors tokens) @ ''"\<newline>'' @
     ''        font-weight="700"\<newline>'' @
     ''        padding-bottom="'' @ sm (spacing tokens) @ ''"\<newline>'' @
     ''      >\<newline>'' @
     ''        '' @ js_str (price item) @ ''\<newline>'' @
     ''      </mj-text>\<newline>'' @
     ''\<newline>'' @
     ''      <mj-button\<newline>'' @
     ''        href="'' @ js_str (url item) @ ''"\<newline>'' @
     ''        background-color="transparent"\<newline>'' @
     ''        color="'' @ primary (colors tokens) @ ''"\<newline>'' @
     ''        font-size="14px"\<newline>'' @
     ''        padding="'' @ xs (spacing tokens) @ '' '' @ md (spacing tokens) @ ''"\<newline>'' @
     ''        border="'' @ primary (colors tokens) @ '' 1px solid"\<newline>'' @
     ''        border-radius="'' @ button (radius tokens) @ ''"\<newline>'' @
     ''      >\<newline>'' @
     ''        Scopri\<newline>'' @
     ''      </mj-button>\<newline>'' @
     ''    </mj-column>\<newline>'' @
     ''  ''\<close>

definition recommendationsComponent :: "block \<Rightarrow> tokens \<Rightarrow> string" where
  \<open>recommendationsComponent block tokens =
    (case items block of
       None \<Rightarrow> []
     | Some its \<Rightarrow>
         if length its = 0 then []
         else
           let itemsMarkup = join [] (map (recommendations_column tokens) (slice 0 3 its))
           in trim (
     ''\<newline>'' @
     ''    <mj-section background-color="'' @ surface (colors tokens) @ ''" css-class="section-spacing">\<newline>'' @
     ''      <mj-column>\<newline>'' @
     ''        <mj-text\<newline>'' @
     ''          align="center"\<newline>'' @
     ''          font-size="'' @ size_tok (heading (fonts tokens)) @ ''"\<newline>'' @
     ''          font-weight="'' @ weight (heading (fonts tokens)) @ ''"\<newline>'' @
     ''          color="'' @ text_tok (colors tokens) @ ''"\<newline>'' @
     ''          padding-bottom="'' @ lg (spacing tokens) @ ''"\<newline>'' @
     ''        >\<newline>'' @
     ''          '' @ js_str (title block) @ ''\<newline>'' @
     ''        </mj-text>\<newline>'' @
     ''      </mj-column>\<newline>'' @
     ''    </mj-section>\<newline>'' @
     ''\<newline>'' @
     ''    <mj-section background-color="'' @ surface (colors tokens) @ ''">\<newline>'' @
     ''      '' @ itemsMarkup @ ''\<newline>'' @
     ''    </mj-section>\<newline>'' @
     ''  ''))\<close>

section \<open>Footer (components/footer.js)\<close>

definition footerComponent :: "block \<Rightarrow> tokens \<Rightarrow> string" where
  \<open>footerComponent block tokens = trim (
     ''\<newline>'' @
     ''    <mj-section background-color="'' @ secondary (colors tokens) @ ''" padding-top="'' @ xxl (spacing tokens) @ ''">\<newline>'' @
     ''      <mj-column>\<newline>'' @
     ''        <mj-divider border-color="'' @ textSecondary (colors tokens) @ ''" border-width="1px" padding-bottom="'' @ lg (spacing tokens) @ ''" />\<newline>'' @
     ''\<newline>'' @
     ''        <mj-text\<newline>'' @
     ''          align="center"\<newline>'' @
     ''          font-size="12px"\<newline>'' @
     ''          color="'' @ textSecondary (colors tokens) @ ''"\<newline>'' @
     ''          padding-bottom="'' @ md (spacing tokens) @ ''"\<newline>'' @
     ''        >\<newline>'' @
     ''          '' @ js_str (legal block) @ ''\<newline>'' @
     ''        </mj-text>\<newline>'' @
     ''\<newline>'' @
     ''        <mj-text\<newline>'' @
     ''          align="center"\<newline>'' @
     ''          font-size="12px"\<newline>'' @
     ''          color="'' @ textSecondary (colors tokens) @ ''"\<newline>'' @
     ''          padding-bottom="'' @ lg (spacing tokens) @ ''"\<newline>'' @
     ''        >\<newline>'' @
     ''          <a href="'' @ js_str (preferencesUrl block) @ ''" style="color: '' @ textSecondary (colors tokens) @ ''; text-decoration: underline;">\<newline>'' @
     ''            Gestisci preferenze\<newline>'' @
     ''          </a>\<newline>'' @
     ''          &nbsp;|&nbsp;\<newline>'' @
     ''          <a href="'' @ js_str (unsubscribeUrl block) @ ''" style="color: '' @ textSecondary (colors tokens) @ ''; text-decoration: underline;">\<newline>'' @
     ''            Annulla iscrizione\<newline>'' @
     ''          </a>\<newline>'' @
     ''        </mj-text>\<newline>'' @
     ''      </mj-column>\<newline>'' @
     ''    </mj-section>\<newline>'' @
     ''  '')\<close>

section \<open>Document assembly (templates/generator.js, generateMJML)\<close>

text \<open>
  \<open>console.warn\<close> and \<open>console.error\<close> are the only effects of the renderer besides its
  return value. A console is the list of calls made, oldest first: the level, the
  message, and the validation errors of the MJML library where the call prints them
  (the error object that \<open>console.error\<close> prints is left out).
\<close>

datatype level = WarnLevel | ErrorLevel

type_synonym console = "(level \<times> string \<times> string list) list"

text \<open>An exception: the \<open>TypeError\<close> of calling a method of \<open>undefined\<close>, or an error
  thrown by the MJML library with its message.\<close>

datatype js_error = TypeError | LibraryError string

text \<open>The arrow function mapped over the blocks: the fragment of one block and the
  console calls made while compiling it.\<close>

definition compile_block :: "tokens \<Rightarrow> block \<Rightarrow> string \<times> console" where
  "compile_block tokens block =
     (if type block = Some ''hero'' then (heroComponent block tokens, [])
      else if type block = Some ''items'' then (itemsComponent block tokens, [])
      else if type block = Some ''recommendations'' then
        (recommendationsComponent block tokens, [])
      else if type block = Some ''footer'' then (footerComponent block tokens, [])
      else ([], [(WarnLevel, ''Unknown block type: '' @ js_str (type block), [])]))"

definition generateMJML :: "template \<Rightarrow> js_error + (string \<times> console)" where
  \<open>generateMJML template =
    (let tokens = loadDesignTokens (templateType template) in
     case blocks template of
       None \<Rightarrow> Inl TypeError
     | Some bs \<Rightarrow>
         let compiled = map (compile_block tokens) bs;
             mjmlBlocks = join ''\<newline>'' (map fst compiled)
         in Inr (trim (
     ''\<newline>'' @
     ''<mjml>\<newline>'' @
     ''  <mj-head>\<newline>'' @
     ''    <mj-title>'' @ js_str (subject template) @ ''</mj-title>\<newline>'' @
     ''    <mj-preview>'' @ js_str (preheader template) @ ''</mj-preview>\<newline>'' @
     ''\<newline>'' @
     ''    <mj-attributes>\<newline>'' @
     ''      <mj-text color="'' @ text_tok (colors tokens) @ ''" font-family="'' @ family (body (fonts tokens)) @ ''" font-size="'' @ size_tok (body (fonts tokens)) @ ''" line-height="'' @ lineHeight (body (fonts tokens)) @ ''" />\<newline>'' @
     ''      <mj-button background-color="'' @ primary (colors tokens) @ ''" color="'' @ onPrimary (colors tokens) @ ''" font-family="'' @ family (body (fonts tokens)) @ ''" border-radius="'' @ button (radius tokens) @ ''" />\<newline>'' @
     ''    </mj-attributes>\<newline>'' @
     ''\<newline>'' @
     ''    <mj-style>\<newline>'' @
     ''      .content-padding { padding: '' @ md (spacing tokens) @ '' '' @ lg (spacing tokens) @ ''; }\<newline>'' @
     ''      .section-spacing { padding-top: '' @ xl (spacing tokens) @ ''; padding-bottom: '' @ xl (spacing tokens) @ ''; }\<newline>'' @
     ''    </mj-style>\<newline>'' @
     ''  </mj-head>\<newline>'' @
     ''\<newline>'' @
     ''  <mj-body background-color="'' @ background (colors tokens) @ ''">\<newline>'' @
     ''    '' @ mjmlBlocks @ ''\<newline>'' @
     ''  </mj-body>\<newline>'' @
     ''</mjml>''),
            concat (map snd compiled)))\<close>

section \<open>The render endpoint (index.js, POST /render)\<close>

text \<open>
  The MJML library is not part of the repository: it is a parameter, a function from the
  intermediate markup to either a thrown error or the pair of the final markup and the
  list of validation errors (which the handler allows to be absent).
\<close>

record mjml_result =
  html :: string
  errors :: "string list option"

type_synonym mjml_lib = "string \<Rightarrow> js_error + mjml_result"

datatype response_body =
    ErrorBody string "js_error option"
  | RenderBody string string "string list"

record response =
  status :: nat
  json :: response_body

definition render_handler :: "mjml_lib \<Rightarrow> template \<Rightarrow> response \<times> console" where
  "render_handler mjml req_body =
     (if \<not> truthy (templateType req_body) \<or> blocks req_body = None then
        (\<lparr> status = 400,
            json = ErrorBody ''Missing required fields: templateType, blocks'' None \<rparr>, [])
      else
        case generateMJML
               \<lparr> locale_id = locale_id req_body, templateType = templateType req_body,
                 subject = subject req_body, preheader = preheader req_body,
                 blocks = blocks req_body \<rparr> of
          Inl e \<Rightarrow>
            (\<lparr> status = 500, json = ErrorBody ''Failed to render template'' (Some e) \<rparr>,
             [(ErrorLevel, ''Render error:'', [])])
        | Inr (mjmlContent, log) \<Rightarrow>
            (case mjml mjmlContent of
               Inl e \<Rightarrow>
                 (\<lparr> status = 500, json = ErrorBody ''Failed to render template'' (Some e) \<rparr>,
                  log @ [(ErrorLevel, ''Render error:'', [])])
             | Inr result \<Rightarrow>
                 (\<lparr> status = 200,
                     json = RenderBody mjmlContent (html result)
                              (case errors result of None \<Rightarrow> [] | Some es \<Rightarrow> es) \<rparr>,
                  log @ (case errors result of
                           None \<Rightarrow> []
                         | Some es \<Rightarrow>
                             if length es > 0
                             then [(WarnLevel, ''MJML compilation warnings:'', es)]
                             else []))))"

section \<open>Fixtures and observations used in the statements\<close>

text \<open>An object with no property set, from which concrete blocks are built.\<close>

definition blank_block :: block where
  "blank_block =
     \<lparr> type = None, headline = None, subcopy = None, block.imageUrl = None,
       customHtml = None, title = None, items = None, legal = None,
       preferencesUrl = None, unsubscribeUrl = None \<rparr>"

text \<open>A stand-in for the MJML library that accepts every input and reports no
  validation error.\<close>

definition accepting_mjml :: mjml_lib where
  "accepting_mjml content = Inr \<lparr> html = content, errors = Some [] \<rparr>"

text \<open>The block types that have a component: the cases of the switch in
  \<open>generateMJML\<close>.\<close>

definition known_block_types :: "string list" where
  "known_block_types = [''hero'', ''items'', ''recommendations'', ''footer'']"

text \<open>The \<open>warnings\<close> property of a response body, when the body has one.\<close>

definition response_warnings :: "response \<Rightarrow> string list option" where
  "response_warnings r =
     (case json r of RenderBody m h ws \<Rightarrow> Some ws | ErrorBody e d \<Rightarrow> None)"

text \<open>
  Elements of a fragment are counted by their opening tags: \<open>occurrences pat s\<close> is the
  number of positions of \<open>s\<close> at which \<open>pat\<close> starts. A string that a caller supplies
  can contain markup of its own and so add tags to a fragment; \<open>markup_free\<close> excludes
  that, for a string, for the leaves of a token set and for the rendered properties of
  an item.
\<close>

fun occurrences :: "string \<Rightarrow> string \<Rightarrow> nat" where
  "occurrences pat [] = 0"
| "occurrences pat (c # cs) =
     (if prefix pat (c # cs) then Suc (occurrences pat cs) else occurrences pat cs)"

definition markup_free :: "string \<Rightarrow> bool" where
  "markup_free s = (CHR ''<'' \<notin> set s)"

definition tokens_markup_free :: "tokens \<Rightarrow> bool" where
  "tokens_markup_free t =
     (markup_free (primary (colors t)) \<and> markup_free (onPrimary (colors t)) \<and>
      markup_free (secondary (colors t)) \<and> markup_free (background (colors t)) \<and>
      markup_free (surface (colors t)) \<and> markup_free (text_tok (colors t)) \<and>
      markup_free (textSecondary (colors t)) \<and>
      markup_free (family (heading (fonts t))) \<and> markup_free (size_tok (heading (fonts t))) \<and>
      markup_free (weight (heading (fonts t))) \<and> markup_free (lineHeight (heading (fonts t))) \<and>
      markup_free (family (body (fonts t))) \<and> markup_free (size_tok (body (fonts t))) \<and>
      markup_free (weight (body (fonts t))) \<and> markup_free (lineHeight (body (fonts t))) \<and>
      markup_free (xs (spacing t)) \<and> markup_free (sm (spacing t)) \<and>
      markup_free (md (spacing t)) \<and> markup_free (lg (spacing t)) \<and>
      markup_free (xl (spacing t)) \<and> markup_free (xxl (spacing t)) \<and>
      markup_free (button (radius t)) \<and> markup_free (card (radius t)))"

definition item_markup_free :: "item \<Rightarrow> bool" where
  "item_markup_free it =
     (markup_free (js_str (name it)) \<and> markup_free (js_str (price it)) \<and>
      markup_free (js_str (item.imageUrl it)) \<and> markup_free (js_str (url it)))"

text \<open>The opening tag of a product column, as both item templates write it.\<close>

definition product_column_open :: string where
  \<open>product_column_open = ''<mj-column width="33.33%"''\<close>

text \<open>
  \<open>straddle_free pat s\<close>: no proper prefix of \<open>pat\<close> ends \<open>s\<close>, so that no occurrence of
  \<open>pat\<close> in \<open>s @ t\<close> begins in \<open>s\<close> and ends in \<open>t\<close>. It lets occurrences be counted
  piece by piece.
\<close>

fun straddle_free :: "string \<Rightarrow> string \<Rightarrow> bool" where
  "straddle_free pat [] = True"
| "straddle_free pat (c # cs) = (\<not> strict_prefix (c # cs) pat \<and> straddle_free pat cs)"

text \<open>Some items and blocks to evaluate the components on.\<close>

definition sample_item :: "string \<Rightarrow> item" where
  "sample_item n =
     \<lparr> sku = Some n, name = Some (''Product '' @ n), price = Some ''9.99'',
       item.imageUrl = Some (''https://cdn.example/'' @ n @ ''.png''),
       url = Some (''https://shop.example/p/'' @ n) \<rparr>"

definition five_items :: "item list" where
  "five_items = map sample_item [''1'', ''2'', ''3'', ''4'', ''5'']"

definition items_block :: block where
  "items_block =
     blank_block \<lparr> type := Some ''items'', title := Some ''Your cart'',
                   items := Some five_items \<rparr>"

definition recommendations_block :: block where
  "recommendations_block =
     blank_block \<lparr> type := Some ''recommendations'', title := Some ''You may also like'',
                   items := Some five_items \<rparr>"

definition hero_block :: block where
  "hero_block =
     blank_block \<lparr> type := Some ''hero'', headline := Some ''H'', subcopy := Some [],
                   block.imageUrl := Some [] \<rparr>"

definition custom_hero_block :: block where
  "custom_hero_block =
     blank_block \<lparr> type := Some ''hero'', headline := Some ''H'',
                   block.imageUrl := Some ''https://cdn.example/hero.png'',
                   customHtml := Some ''<b>Sale!</b>'' \<rparr>"

definition footer_block :: block where
  "footer_block =
     blank_block \<lparr> type := Some ''footer'', legal := Some ''L'',
                   preferencesUrl := Some ''pu'', unsubscribeUrl := Some ''uu'' \<rparr>"

definition video_block :: block where
  "video_block = blank_block \<lparr> type := Some ''video'' \<rparr>"

definition document :: "block list \<Rightarrow> template" where
  "document bs =
     \<lparr> locale_id = Some ''it-IT'', templateType = Some ''cart_abandon'',
       subject = Some ''S'', preheader = Some ''P'', blocks = Some bs \<rparr>"

section \<open>Strings: joining, trimming, counting\<close>

lemma join_nil: "join [] ss = concat ss"
  by (induction "[] :: string" ss rule: join.induct) auto

lemma join_split:
  "join sep (as @ s # bs) =
     (if as = [] then [] else join sep as @ sep) @ s @ (if bs = [] then [] else sep @ join sep bs)"
proof (induction sep as rule: join.induct)
  case (1 sep)
  then show ?case by (cases bs) auto
next
  case (2 sep a)
  then show ?case by (cases bs) auto
next
  case (3 sep a b cs)
  then show ?case by simp
qed

lemma prefix_append_whole:
  "\<not> strict_prefix a pat \<Longrightarrow> prefix pat (a @ b) \<longleftrightarrow> prefix pat a"
  by (auto simp: prefix_append strict_prefix_def)

lemma occurrences_append:
  "straddle_free pat a \<Longrightarrow> occurrences pat (a @ b) = occurrences pat a + occurrences pat b"
proof (induction a)
  case Nil
  then show ?case by simp
next
  case (Cons c cs)
  then have "prefix pat (c # cs @ b) \<longleftrightarrow> prefix pat (c # cs)"
    using prefix_append_whole [of "c # cs" pat b] by simp
  with Cons show ?case by simp
qed

lemma occurrences_skip:
  "c \<notin> set v \<Longrightarrow> occurrences (c # p) (v @ r) = occurrences (c # p) r"
  by (induction v) auto

lemma occurrences_none:
  "c \<notin> set v \<Longrightarrow> occurrences (c # p) v = 0"
  using occurrences_skip [of c v p "[]"] by simp

lemma occurrences_concat:
  assumes "\<And>x r. x \<in> set l \<Longrightarrow> occurrences pat (f x @ r) = Suc (occurrences pat r)"
  shows "occurrences pat (concat (map f l) @ r) = length l + occurrences pat r"
  using assms by (induction l) auto

lemma occurrences_trimStart:
  assumes "\<not> js_space c"
  shows "occurrences (c # p) (trimStart s) = occurrences (c # p) s"
  unfolding trimStart_def using assms by (induction s) auto

lemma occurrences_spaces:
  assumes "\<not> js_space c" "list_all js_space sp"
  shows "occurrences (c # p) sp = 0"
  using assms by (induction sp) auto

lemma prefix_trailing_spaces:
  assumes "pat \<noteq> []" "\<not> js_space (last pat)" "list_all js_space sp"
  shows "prefix pat (a @ sp) \<longleftrightarrow> prefix pat a"
proof
  assume "prefix pat (a @ sp)"
  then have "prefix pat a \<or> (\<exists>us. pat = a @ us \<and> prefix us sp)"
    by (simp add: prefix_append)
  then show "prefix pat a"
  proof
    assume "\<exists>us. pat = a @ us \<and> prefix us sp"
    then obtain us where us: "pat = a @ us" "prefix us sp" by blast
    show ?thesis
    proof (cases "us = []")
      case True
      with us show ?thesis by simp
    next
      case False
      with us have "last pat = last us" by simp
      moreover from False us have "last us \<in> set sp"
        by (meson last_in_set set_mono_prefix subsetD)
      ultimately show ?thesis using assms by (auto simp: list_all_iff)
    qed
  qed
qed (simp add: prefix_append)

lemma occurrences_trailing_spaces:
  assumes "\<not> js_space c" "\<not> js_space (last (c # p))" "list_all js_space sp"
  shows "occurrences (c # p) (a @ sp) = occurrences (c # p) a"
proof (induction a)
  case Nil
  then show ?case using assms by (simp add: occurrences_spaces)
next
  case (Cons x a)
  have "prefix (c # p) ((x # a) @ sp) \<longleftrightarrow> prefix (c # p) (x # a)"
    using assms by (intro prefix_trailing_spaces) auto
  with Cons show ?case by auto
qed

lemma trimEnd_decompose:
  "s = trimEnd s @ rev (takeWhile js_space (rev s))"
  unfolding trimEnd_def by (metis rev_append rev_rev_ident takeWhile_dropWhile_id)

lemma occurrences_trimEnd:
  assumes "\<not> js_space c" "\<not> js_space (last (c # p))"
  shows "occurrences (c # p) (trimEnd s) = occurrences (c # p) s"
proof -
  have "list_all js_space (rev (takeWhile js_space (rev s)))"
    by (simp add: list_all_iff) (meson set_takeWhileD)
  from occurrences_trailing_spaces [OF assms this, of "trimEnd s"]
  show ?thesis using trimEnd_decompose [of s] by simp
qed

lemma occurrences_trim:
  assumes "\<not> js_space c" "\<not> js_space (last (c # p))"
  shows "occurrences (c # p) (trim s) = occurrences (c # p) s"
  unfolding trim_def
  by (simp add: occurrences_trimEnd [OF assms] occurrences_trimStart [OF assms(1)])

lemma occurrences_pos_iff:
  "p \<noteq> [] \<Longrightarrow> 0 < occurrences p s \<longleftrightarrow> sublist p s"
  by (induction s) (auto simp: sublist_Cons_right)

lemma sublist_trim:
  assumes "\<not> js_space c" "\<not> js_space (last (c # p))"
  shows "sublist (c # p) (trim s) \<longleftrightarrow> sublist (c # p) s"
  using occurrences_trim [OF assms, of s]
    occurrences_pos_iff [of "c # p" s] occurrences_pos_iff [of "c # p" "trim s"]
  by simp

lemma set_trim: "set (trim s) \<subseteq> set s"
  unfolding trim_def trimStart_def trimEnd_def
  by (auto dest!: set_dropWhileD)

text \<open>A piece in the middle of a text survives trimming when the text before and
  the text after it are not white space only.\<close>

lemma trim_middle:
  assumes "trimStart a \<noteq> []" "trimEnd c \<noteq> []"
  shows "trim (a @ m @ c) = trimStart a @ m @ trimEnd c"
proof -
  from assms(1) obtain x where x: "x \<in> set a" "\<not> js_space x"
    unfolding trimStart_def by (metis dropWhile_eq_Nil_conv)
  from assms(2) obtain y where y: "y \<in> set (rev c)" "\<not> js_space y"
    unfolding trimEnd_def by (metis dropWhile_eq_Nil_conv rev_is_Nil_conv)
  have 1: "trimStart (a @ m @ c) = trimStart a @ m @ c"
    unfolding trimStart_def using x by (rule dropWhile_append1)
  have "dropWhile js_space (rev c @ rev (trimStart a @ m)) =
          dropWhile js_space (rev c) @ rev (trimStart a @ m)"
    using y by (rule dropWhile_append1)
  then have 2: "trimEnd ((trimStart a @ m) @ c) = (trimStart a @ m) @ trimEnd c"
    unfolding trimEnd_def by simp
  show ?thesis unfolding trim_def 1 using 2 by simp
qed

lemma sublist_trim_middle:
  assumes "s = a @ m @ c" "trimStart a \<noteq> []" "trimEnd c \<noteq> []"
  shows "sublist m (trim s)"
  unfolding assms(1) trim_middle [OF assms(2,3)] by simp

text \<open>Finding a text inside a text that is written as pieces.\<close>

lemma sublist_walk: "sublist p r \<Longrightarrow> sublist p (a @ r)"
  by (metis append.assoc sublist_def)

lemma sublist_seg: "sublist p a \<Longrightarrow> sublist p (a @ r)"
  by (metis append.assoc sublist_def)

lemma sublist_match:
  assumes "suffix p1 l" "prefix p3 r"
  shows "sublist (p1 @ u @ p3) (l @ u @ r @ rest)"
proof -
  from assms obtain l' r' where "l = l' @ p1" "r = p3 @ r'"
    by (auto simp: suffix_def prefix_def)
  then have "l @ u @ r @ rest = l' @ (p1 @ u @ p3) @ (r' @ rest)" by simp
  then show ?thesis unfolding sublist_def by blast
qed

lemma sublist_concat_member:
  assumes "x \<in> set l"
  shows "sublist (f x) (concat (map f l))"
proof -
  from assms obtain ys zs where "l = ys @ x # zs" by (auto dest: split_list)
  then have "concat (map f l) = concat (map f ys) @ f x @ concat (map f zs)" by simp
  then show ?thesis unfolding sublist_def by blast
qed

lemma not_sublist_by_char:
  "c \<in> set p \<Longrightarrow> c \<notin> set s \<Longrightarrow> \<not> sublist p s"
  using set_mono_sublist by fastforce

section \<open>Token resolution\<close>

lemma spread_empty: "spread a empty_override = a"
  by (simp add: spread_def empty_override_def)

lemma spread_colors:
  "spread a (empty_override \<lparr> o_colors := Some v \<rparr>) = a \<lparr> colors := v \<rparr>"
  by (simp add: spread_def empty_override_def)

lemma loadDesignTokens_cart_abandon:
  "loadDesignTokens (Some ''cart_abandon'') =
     defaultTokens \<lparr> colors := (colors defaultTokens) \<lparr> primary := ''#dc2626'' \<rparr> \<rparr>"
  by (simp add: loadDesignTokens_def js_str_def templateOverrides_def own_enumerable_def
        spread_colors)

lemma loadDesignTokens_post_purchase:
  "loadDesignTokens (Some ''post_purchase'') =
     defaultTokens \<lparr> colors := (colors defaultTokens) \<lparr> primary := ''#059669'' \<rparr> \<rparr>"
  by (simp add: loadDesignTokens_def js_str_def templateOverrides_def own_enumerable_def
        spread_colors)

lemma loadDesignTokens_order_confirmation:
  "loadDesignTokens (Some ''order_confirmation'') =
     defaultTokens \<lparr> colors := (colors defaultTokens) \<lparr> primary := ''#2563eb'' \<rparr> \<rparr>"
  by (simp add: loadDesignTokens_def js_str_def templateOverrides_def own_enumerable_def
        spread_colors)

lemma loadDesignTokens_other:
  "k \<noteq> ''cart_abandon'' \<Longrightarrow> k \<noteq> ''post_purchase'' \<Longrightarrow> k \<noteq> ''order_confirmation'' \<Longrightarrow>
     js_str t = k \<Longrightarrow> loadDesignTokens t = defaultTokens"
  by (simp add: loadDesignTokens_def templateOverrides_def own_enumerable_def spread_empty)

text \<open>
  C1. For each of the three known categories the resolved token set is the base set with
  at most the leaf \<open>colors.primary\<close> replaced: \<open>fonts\<close>, \<open>spacing\<close>, \<open>radius\<close> and the six
  other leaves of \<open>colors\<close> keep the base value; in particular \<open>colors.secondary\<close> does.
  The spread in \<open>loadDesignTokens\<close> is shallow and replaces \<open>colors\<close> as a whole; the
  siblings survive because each override spreads the base colours itself.
\<close>

theorem loadDesignTokens_keeps_siblings:
  assumes "c \<in> {''cart_abandon'', ''post_purchase'', ''order_confirmation''}"
  shows "loadDesignTokens (Some c) =
           defaultTokens \<lparr> colors := (colors defaultTokens)
               \<lparr> primary := primary (colors (loadDesignTokens (Some c))) \<rparr> \<rparr>
         \<and> secondary (colors (loadDesignTokens (Some c))) = secondary (colors defaultTokens)"
proof -
  from assms consider "c = ''cart_abandon''" | "c = ''post_purchase''"
    | "c = ''order_confirmation''"
    by blast
  then show ?thesis
  proof cases
    case 1
    then show ?thesis by (simp add: loadDesignTokens_cart_abandon)
  next
    case 2
    then show ?thesis by (simp add: loadDesignTokens_post_purchase)
  next
    case 3
    then show ?thesis by (simp add: loadDesignTokens_order_confirmation)
  qed
qed

theorem loadDesignTokens_keeps_siblings_witness:
  "''cart_abandon'' \<in> {''cart_abandon'', ''post_purchase'', ''order_confirmation''}
   \<and> loadDesignTokens (Some ''cart_abandon'') =
       defaultTokens \<lparr> colors := (colors defaultTokens) \<lparr> primary := ''#dc2626'' \<rparr> \<rparr>
   \<and> secondary (colors (loadDesignTokens (Some ''cart_abandon''))) = ''#64748b''"
  using loadDesignTokens_keeps_siblings [of "''cart_abandon''"]
  by (simp add: loadDesignTokens_cart_abandon) (simp add: defaultTokens_def)

text \<open>
  C5. For every category string other than the three known ones the resolver returns the
  base token set unchanged. This covers the names found on \<open>Object.prototype\<close>, whose
  values have nothing to spread. \<open>loadDesignTokens\<close> has no failing branch: the source
  reads a property of an object literal and spreads the result or \<open>{}\<close>, neither of
  which can throw.
\<close>

theorem loadDesignTokens_unknown_category:
  "c \<notin> {''cart_abandon'', ''post_purchase'', ''order_confirmation''} \<Longrightarrow>
     loadDesignTokens (Some c) = defaultTokens"
  by (rule loadDesignTokens_other [of c]) (simp_all add: js_str_def)

theorem loadDesignTokens_unknown_category_witness:
  "''toString'' \<notin> {''cart_abandon'', ''post_purchase'', ''order_confirmation''}
   \<and> loadDesignTokens (Some ''toString'') = defaultTokens"
  using loadDesignTokens_unknown_category [of "''toString''"] by simp

section \<open>Empty item sequences\<close>

text \<open>
  C8. An Items block and a Recommendations block whose \<open>items\<close> is absent or the empty
  array compile to the empty string: no section, title or container is emitted.
\<close>

theorem empty_items_empty_fragment:
  "items block = None \<or> items block = Some [] \<Longrightarrow>
     itemsComponent block tokens = [] \<and> recommendationsComponent block tokens = []"
  by (auto simp: itemsComponent_def recommendationsComponent_def)

theorem empty_items_empty_fragment_witness:
  "(items (blank_block \<lparr> type := Some ''items'', title := Some ''Cart'', items := Some [] \<rparr>) = None
    \<or> items (blank_block \<lparr> type := Some ''items'', title := Some ''Cart'', items := Some [] \<rparr>)
        = Some [])
   \<and> itemsComponent
         (blank_block \<lparr> type := Some ''items'', title := Some ''Cart'', items := Some [] \<rparr>)
         defaultTokens = []
   \<and> recommendationsComponent
         (blank_block \<lparr> type := Some ''items'', title := Some ''Cart'', items := Some [] \<rparr>)
         defaultTokens = []"
  using empty_items_empty_fragment
    [of "blank_block \<lparr> type := Some ''items'', title := Some ''Cart'', items := Some [] \<rparr>"
        defaultTokens]
  by simp

section \<open>Request validation\<close>

text \<open>
  C9. A request body without \<open>templateType\<close> or without \<open>blocks\<close> is answered with status
  400 and the error body; the answer does not depend on the MJML library and nothing is
  written to the console, so neither \<open>generateMJML\<close> nor the library has run, and the
  body is not a render result.
\<close>

theorem render_handler_rejects_missing_fields:
  "templateType req = None \<or> blocks req = None \<Longrightarrow>
     render_handler mjml req =
       (\<lparr> status = 400,
           json = ErrorBody ''Missing required fields: templateType, blocks'' None \<rparr>, [])"
  by (auto simp: render_handler_def truthy_def)

theorem render_handler_rejects_missing_fields_witness:
  "(templateType \<lparr> locale_id = Some ''it-IT'', templateType = Some ''cart_abandon'',
                   subject = Some ''S'', preheader = Some ''P'', blocks = None \<rparr> = None
    \<or> blocks \<lparr> locale_id = Some ''it-IT'', templateType = Some ''cart_abandon'',
                subject = Some ''S'', preheader = Some ''P'', blocks = None \<rparr> = None)
   \<and> render_handler accepting_mjml
         \<lparr> locale_id = Some ''it-IT'', templateType = Some ''cart_abandon'',
           subject = Some ''S'', preheader = Some ''P'', blocks = None \<rparr> =
       (\<lparr> status = 400,
           json = ErrorBody ''Missing required fields: templateType, blocks'' None \<rparr>, [])"
  using render_handler_rejects_missing_fields
    [of "\<lparr> locale_id = Some ''it-IT'', templateType = Some ''cart_abandon'',
           subject = Some ''S'', preheader = Some ''P'', blocks = None \<rparr>" accepting_mjml]
  by simp

section \<open>Hero: optional fields\<close>

lemma hero_image_empty: "\<not> truthy (block.imageUrl block) \<Longrightarrow> hero_image block tokens = []"
  by (simp add: hero_image_def)

lemma hero_subcopy_empty: "\<not> truthy (subcopy block) \<Longrightarrow> hero_subcopy block tokens = []"
  by (simp add: hero_subcopy_def)

lemma hero_image_count_image:
  assumes "tokens_markup_free tokens" "markup_free (js_str (headline block))"
    "markup_free (js_str (block.imageUrl block))"
  shows "occurrences ''<mj-image'' (hero_image block tokens @ r) =
           (if truthy (block.imageUrl block) then 1 else 0) + occurrences ''<mj-image'' r"
proof (cases "truthy (block.imageUrl block)")
  case True
  with assms show ?thesis
    unfolding hero_image_def tokens_markup_free_def markup_free_def
    by (simp add: occurrences_skip occurrences_append del: append.simps)
next
  case False
  then show ?thesis by (simp add: hero_image_def)
qed

lemma hero_image_count_text:
  assumes "tokens_markup_free tokens" "markup_free (js_str (headline block))"
    "markup_free (js_str (block.imageUrl block))"
  shows "occurrences ''<mj-text'' (hero_image block tokens @ r) = occurrences ''<mj-text'' r"
proof (cases "truthy (block.imageUrl block)")
  case True
  with assms show ?thesis
    unfolding hero_image_def tokens_markup_free_def markup_free_def
    by (simp add: occurrences_skip occurrences_append del: append.simps)
next
  case False
  then show ?thesis by (simp add: hero_image_def)
qed

lemma hero_subcopy_count_image:
  assumes "tokens_markup_free tokens" "markup_free (js_str (subcopy block))"
  shows "occurrences ''<mj-image'' (hero_subcopy block tokens @ r) = occurrences ''<mj-image'' r"
proof (cases "truthy (subcopy block)")
  case True
  with assms show ?thesis
    unfolding hero_subcopy_def tokens_markup_free_def markup_free_def
    by (simp add: occurrences_skip occurrences_append del: append.simps)
next
  case False
  then show ?thesis by (simp add: hero_subcopy_def)
qed

lemma hero_subcopy_count_text:
  assumes "tokens_markup_free tokens" "markup_free (js_str (subcopy block))"
  shows "occurrences ''<mj-text'' (hero_subcopy block tokens @ r) =
           (if truthy (subcopy block) then 1 else 0) + occurrences ''<mj-text'' r"
proof (cases "truthy (subcopy block)")
  case True
  with assms show ?thesis
    unfolding hero_subcopy_def tokens_markup_free_def markup_free_def
    by (simp add: occurrences_skip occurrences_append del: append.simps)
next
  case False
  then show ?thesis by (simp add: hero_subcopy_def)
qed

lemma heroComponent_count_image:
  assumes "tokens_markup_free tokens" "markup_free (js_str (headline block))"
    "markup_free (js_str (subcopy block))" "markup_free (js_str (block.imageUrl block))"
  shows "occurrences ''<mj-image'' (heroComponent block tokens) =
           (if truthy (block.imageUrl block) then 1 else 0)"
proof -
  note parts = hero_image_count_image [OF assms(1,2,4)] hero_subcopy_count_image [OF assms(1,3)]
  from assms(1,2) show ?thesis
    unfolding heroComponent_def tokens_markup_free_def markup_free_def
    by (simp add: js_space_def occurrences_trim parts occurrences_skip occurrences_append
          del: append.simps)
qed

lemma heroComponent_count_text:
  assumes "tokens_markup_free tokens" "markup_free (js_str (headline block))"
    "markup_free (js_str (subcopy block))" "markup_free (js_str (block.imageUrl block))"
  shows "occurrences ''<mj-text'' (heroComponent block tokens) =
           (if truthy (subcopy block) then 2 else 1)"
proof -
  note parts = hero_image_count_text [OF assms(1,2,4)] hero_subcopy_count_text [OF assms(1,3)]
  from assms(1,2) show ?thesis
    unfolding heroComponent_def tokens_markup_free_def markup_free_def
    by (simp add: js_space_def occurrences_trim parts occurrences_skip occurrences_append
          del: append.simps)
qed

lemma tokens_markup_free_default: "tokens_markup_free defaultTokens"
  by (simp add: tokens_markup_free_def markup_free_def defaultTokens_def)

lemma tokens_markup_free_load: "tokens_markup_free (loadDesignTokens t)"
proof -
  have "markup_free ''#dc2626''" "markup_free ''#059669''" "markup_free ''#2563eb''"
    by (simp_all add: markup_free_def)
  then have "tokens_markup_free (defaultTokens \<lparr> colors := (colors defaultTokens) \<lparr> primary := p \<rparr> \<rparr>)"
    if "p \<in> {''#dc2626'', ''#059669'', ''#2563eb''}" for p
    using tokens_markup_free_default that by (auto simp: tokens_markup_free_def)
  then show ?thesis
    by (simp add: loadDesignTokens_def templateOverrides_def own_enumerable_def spread_empty
          spread_colors tokens_markup_free_default)
qed

text \<open>The Hero fragment with the white space at its ends removed.\<close>

lemma trim_chain:
  assumes "s = a @ m @ c" "trimStart a = a'" "a' \<noteq> []" "trimEnd c = c'" "c' \<noteq> []"
  shows "trim s = a' @ m @ c'"
  using assms trim_middle [of a c m] by simp

lemma heroComponent_trimmed:
  \<open>heroComponent block tokens =
     ''<mj-section background-color="'' @
     (surface (colors tokens) @
      ''" css-class="section-spacing">\<newline>'' @
      ''      <mj-column>\<newline>'' @
      ''        '' @
      hero_image block tokens @
      ''\<newline>'' @
      ''\<newline>'' @
      ''        <mj-text\<newline>'' @
      ''          align="center"\<newline>'' @
      ''          font-size="'' @
      size_tok (heading (fonts tokens)) @
      ''"\<newline>'' @
      ''          font-weight="'' @
      weight (heading (fonts tokens)) @
      ''"\<newline>'' @
      ''          line-height="'' @
      lineHeight (heading (fonts tokens)) @
      ''"\<newline>'' @
      ''          color="'' @
      text_tok (colors tokens) @
      ''"\<newline>'' @
      ''          padding-bottom="'' @
      md (spacing tokens) @
      ''"\<newline>'' @
      ''        >\<newline>'' @
      ''          '' @
      js_str (headline block) @
      ''\<newline>'' @
      ''        </mj-text>\<newline>'' @
      ''\<newline>'' @
      ''        '' @
      hero_subcopy block tokens @
      ''\<newline>'' @
      ''      </mj-column>\<newline>'') @
     ''    </mj-section>''\<close>
proof -
  have 1: \<open>trimStart (''\<newline>'' @ ''    <mj-section background-color="'') =
             ''<mj-section background-color="''\<close>
    by (simp add: trimStart_def js_space_def)
  have 2: \<open>trimEnd (''    </mj-section>\<newline>'' @ ''  '') = ''    </mj-section>''\<close>
    by (simp add: trimEnd_def js_space_def)
  show ?thesis
    unfolding heroComponent_def
    by (rule trim_chain [OF _ 1 _ 2]) (simp_all only: append_assoc list.distinct not_False_eq_True)
qed

lemma suffix_tail: "suffix p z \<Longrightarrow> suffix (p @ t) (z @ t)"
  by simp

lemma heroComponent_no_subcopy:
  assumes "\<not> truthy (subcopy block)"
  shows \<open>suffix ''</mj-text>\<newline>\<newline>        \<newline>      </mj-column>\<newline>    </mj-section>''
           (heroComponent block tokens)\<close>
proof -
  have p: \<open>''</mj-text>\<newline>\<newline>        \<newline>      </mj-column>\<newline>    </mj-section>'' =
           ''</mj-text>\<newline>'' @ ''\<newline>'' @ ''        '' @ ''\<newline>'' @
           ''      </mj-column>\<newline>'' @ ''    </mj-section>''\<close>
    by simp
  show ?thesis
    unfolding p heroComponent_trimmed hero_subcopy_empty [OF assms]
    apply (simp only: append_assoc append_Nil)
    apply (rule suffix_order.refl | (rule suffix_tail; (simp add: suffix_to_prefix; fail))
           | rule suffix_appendI)+
    done
qed

lemma heroComponent_no_image:
  assumes "\<not> truthy (block.imageUrl block)"
  shows \<open>prefix (''<mj-section background-color="'' @ surface (colors tokens) @
             ''" css-class="section-spacing">\<newline>      <mj-column>\<newline>        \<newline>\<newline>        <mj-text\<newline>'')
           (heroComponent block tokens)\<close>
proof -
  have p: \<open>''" css-class="section-spacing">\<newline>      <mj-column>\<newline>        \<newline>\<newline>        <mj-text\<newline>'' =
           ''" css-class="section-spacing">\<newline>'' @ ''      <mj-column>\<newline>'' @ ''        '' @
           ''\<newline>'' @ ''\<newline>'' @ ''        <mj-text\<newline>''\<close>
    by simp
  show ?thesis
    unfolding p heroComponent_trimmed hero_image_empty [OF assms]
    by (simp only: append_assoc append_Nil same_prefix_prefix prefix_order.refl
          Sublist.prefixI [OF refl])
qed

text \<open>
  C7. A Hero block whose \<open>subcopy\<close> is absent or empty has no subcopy element: after the
  closing tag of the headline the fragment holds white space only, up to the closing
  tags of the column and the section. A Hero block whose \<open>imageUrl\<close> is absent or empty
  has no image element: the first element of the column is the text element of the
  headline. Counted by their opening tags, for tokens and texts that bring no markup of
  their own, the fragment has one text element and a second one exactly when \<open>subcopy\<close>
  is a non-empty string, and an image element exactly when \<open>imageUrl\<close> is one.
\<close>

theorem hero_omits_absent_fields:
  \<open>(subcopy block = None \<or> subcopy block = Some [] \<longrightarrow>
      suffix ''</mj-text>\<newline>\<newline>        \<newline>      </mj-column>\<newline>    </mj-section>''
        (heroComponent block tokens))
   \<and> (block.imageUrl block = None \<or> block.imageUrl block = Some [] \<longrightarrow>
      prefix (''<mj-section background-color="'' @ surface (colors tokens) @
               ''" css-class="section-spacing">\<newline>      <mj-column>\<newline>        \<newline>\<newline>        <mj-text\<newline>'')
        (heroComponent block tokens))
   \<and> (tokens_markup_free tokens \<and> markup_free (js_str (headline block))
        \<and> markup_free (js_str (subcopy block))
        \<and> markup_free (js_str (block.imageUrl block)) \<longrightarrow>
      occurrences ''<mj-text'' (heroComponent block tokens) =
        (if truthy (subcopy block) then 2 else 1)
      \<and> occurrences ''<mj-image'' (heroComponent block tokens) =
        (if truthy (block.imageUrl block) then 1 else 0))\<close>
proof (intro conjI impI)
  assume "subcopy block = None \<or> subcopy block = Some []"
  then have "\<not> truthy (subcopy block)" by (auto simp: truthy_def)
  then show \<open>suffix ''</mj-text>\<newline>\<newline>        \<newline>      </mj-column>\<newline>    </mj-section>''
               (heroComponent block tokens)\<close>
    by (rule heroComponent_no_subcopy)
next
  assume "block.imageUrl block = None \<or> block.imageUrl block = Some []"
  then have "\<not> truthy (block.imageUrl block)" by (auto simp: truthy_def)
  then show \<open>prefix (''<mj-section background-color="'' @ surface (colors tokens) @
               ''" css-class="section-spacing">\<newline>      <mj-column>\<newline>        \<newline>\<newline>        <mj-text\<newline>'')
             (heroComponent block tokens)\<close>
    by (rule heroComponent_no_image)
next
  assume a: "tokens_markup_free tokens \<and> markup_free (js_str (headline block))
        \<and> markup_free (js_str (subcopy block))
        \<and> markup_free (js_str (block.imageUrl block))"
  then show "occurrences ''<mj-text'' (heroComponent block tokens) =
        (if truthy (subcopy block) then 2 else 1)"
    by (intro heroComponent_count_text) simp_all
  from a show "occurrences ''<mj-image'' (heroComponent block tokens) =
        (if truthy (block.imageUrl block) then 1 else 0)"
    by (intro heroComponent_count_image) simp_all
qed

theorem hero_omits_absent_fields_witness:
  \<open>suffix ''</mj-text>\<newline>\<newline>        \<newline>      </mj-column>\<newline>    </mj-section>''
     (heroComponent hero_block (loadDesignTokens (Some ''cart_abandon'')))
   \<and> prefix ''<mj-section background-color="#ffffff" css-class="section-spacing">\<newline>      <mj-column>\<newline>        \<newline>\<newline>        <mj-text\<newline>''
       (heroComponent hero_block (loadDesignTokens (Some ''cart_abandon'')))
   \<and> occurrences ''<mj-text''
       (heroComponent hero_block (loadDesignTokens (Some ''cart_abandon''))) = 1
   \<and> occurrences ''<mj-image''
       (heroComponent hero_block (loadDesignTokens (Some ''cart_abandon''))) = 0\<close>
proof -
  let ?t = "loadDesignTokens (Some ''cart_abandon'')"
  have f: "subcopy hero_block = Some []" "block.imageUrl hero_block = Some []"
    "\<not> truthy (subcopy hero_block)" "\<not> truthy (block.imageUrl hero_block)"
    by (simp_all add: hero_block_def blank_block_def truthy_def)
  have h: "markup_free (js_str (headline hero_block))"
    "markup_free (js_str (subcopy hero_block))"
    "markup_free (js_str (block.imageUrl hero_block))"
    by (simp_all add: hero_block_def blank_block_def markup_free_def js_str_def)
  have s: "surface (colors ?t) = ''#ffffff''"
    by (simp add: loadDesignTokens_cart_abandon) (simp add: defaultTokens_def)
  note inst = hero_omits_absent_fields [where block = hero_block and tokens = ?t]
  have 1: \<open>suffix ''</mj-text>\<newline>\<newline>        \<newline>      </mj-column>\<newline>    </mj-section>''
             (heroComponent hero_block ?t)\<close>
    using inst [THEN conjunct1] f by simp
  have 2: \<open>prefix ''<mj-section background-color="#ffffff" css-class="section-spacing">\<newline>      <mj-column>\<newline>        \<newline>\<newline>        <mj-text\<newline>''
             (heroComponent hero_block ?t)\<close>
    using inst [THEN conjunct2, THEN conjunct1] f by (simp add: s)
  have 3: "occurrences ''<mj-text'' (heroComponent hero_block ?t) = 1
           \<and> occurrences ''<mj-image'' (heroComponent hero_block ?t) = 0"
    using inst [THEN conjunct2, THEN conjunct2] tokens_markup_free_load [of "Some ''cart_abandon''"]
      h f
    by simp
  from 1 2 3 show ?thesis by blast
qed

section \<open>Items and Recommendations: the product columns\<close>

lemma mid_walk:
  assumes "\<exists>a c. r = a @ m @ c \<and> trimStart a \<noteq> [] \<and> trimEnd c \<noteq> []"
  shows "\<exists>a c. x @ r = a @ m @ c \<and> trimStart a \<noteq> [] \<and> trimEnd c \<noteq> []"
proof -
  from assms obtain a c where ac: "r = a @ m @ c" "trimStart a \<noteq> []" "trimEnd c \<noteq> []"
    by blast
  from ac(2) obtain y where "y \<in> set a" "\<not> js_space y"
    unfolding trimStart_def by (metis dropWhile_eq_Nil_conv)
  then have "trimStart (x @ a) \<noteq> []"
    unfolding trimStart_def by (auto simp: dropWhile_eq_Nil_conv)
  with ac show ?thesis by (intro exI [of _ "x @ a"] exI [of _ c]) simp
qed

lemma mid_here:
  assumes "trimStart x \<noteq> []" "trimEnd c \<noteq> []"
  shows "\<exists>a c'. x @ s @ m @ c = a @ m @ c' \<and> trimStart a \<noteq> [] \<and> trimEnd c' \<noteq> []"
proof -
  from assms(1) obtain y where "y \<in> set x" "\<not> js_space y"
    unfolding trimStart_def by (metis dropWhile_eq_Nil_conv)
  then have "trimStart (x @ s) \<noteq> []"
    unfolding trimStart_def by (auto simp: dropWhile_eq_Nil_conv)
  with assms(2) show ?thesis by (intro exI [of _ "x @ s"] exI [of _ c]) simp
qed

lemma sublist_trim_walk:
  "\<exists>a c. s = a @ m @ c \<and> trimStart a \<noteq> [] \<and> trimEnd c \<noteq> [] \<Longrightarrow> sublist m (trim s)"
  using sublist_trim_middle by blast

lemma items_column_count:
  assumes "tokens_markup_free tokens" "item_markup_free item"
  shows "occurrences product_column_open (items_column tokens item @ r) =
           Suc (occurrences product_column_open r)"
  using assms
  unfolding tokens_markup_free_def item_markup_free_def markup_free_def
    product_column_open_def items_column_def
  by (simp add: occurrences_skip occurrences_append del: append.simps)

lemma recommendations_column_count:
  assumes "tokens_markup_free tokens" "item_markup_free item"
  shows "occurrences product_column_open (recommendations_column tokens item @ r) =
           Suc (occurrences product_column_open r)"
  using assms
  unfolding tokens_markup_free_def item_markup_free_def markup_free_def
    product_column_open_def recommendations_column_def
  by (simp add: occurrences_skip occurrences_append del: append.simps)

lemma itemsComponent_count:
  assumes "items block = Some its" "its \<noteq> []" "tokens_markup_free tokens"
    "markup_free (js_str (title block))" "\<forall>it\<in>set its. item_markup_free it"
  shows "occurrences product_column_open (itemsComponent block tokens) = length its"
proof -
  have cols: "occurrences product_column_open (concat (map (items_column tokens) its) @ r) =
                length its + occurrences product_column_open r" for r
    by (rule occurrences_concat) (use assms in \<open>simp add: items_column_count\<close>)
  from assms(1-4) show ?thesis
    unfolding itemsComponent_def tokens_markup_free_def markup_free_def
    by (simp add: Let_def join_nil js_space_def occurrences_trim
          cols [unfolded product_column_open_def] product_column_open_def
          occurrences_skip occurrences_append
          del: append.simps)
qed

lemma recommendationsComponent_count:
  assumes "items block = Some its" "tokens_markup_free tokens"
    "markup_free (js_str (title block))" "\<forall>it\<in>set (take 3 its). item_markup_free it"
  shows "occurrences product_column_open (recommendationsComponent block tokens) =
           min 3 (length its)"
proof (cases "its = []")
  case True
  with assms(1) show ?thesis by (simp add: recommendationsComponent_def)
next
  case False
  have cols: "occurrences product_column_open
                (concat (map (recommendations_column tokens) (take 3 its)) @ r) =
                length (take 3 its) + occurrences product_column_open r" for r
    by (rule occurrences_concat) (use assms in \<open>simp add: recommendations_column_count\<close>)
  from assms(1-3) False show ?thesis
    unfolding recommendationsComponent_def tokens_markup_free_def markup_free_def
    by (simp add: Let_def join_nil slice_def js_space_def occurrences_trim
          cols [unfolded product_column_open_def] product_column_open_def
          occurrences_skip occurrences_append min.commute
          del: append.simps)
qed

lemma itemsComponent_columns:
  assumes "items block = Some its" "its \<noteq> []"
  shows "sublist (concat (map (items_column tokens) its)) (itemsComponent block tokens)"
  using assms unfolding itemsComponent_def
  apply (simp add: Let_def join_nil del: append.simps)
  apply (rule sublist_trim_walk)
  apply ((rule mid_here; (simp add: trimStart_def trimEnd_def js_space_def; fail))
         | rule mid_walk)+
  done

lemma recommendationsComponent_columns:
  assumes "items block = Some its"
  shows "sublist (concat (map (recommendations_column tokens) (take 3 its)))
           (recommendationsComponent block tokens)"
proof (cases "its = []")
  case True
  with assms show ?thesis by (simp add: recommendationsComponent_def)
next
  case False
  with assms show ?thesis
    unfolding recommendationsComponent_def
    apply (simp add: Let_def join_nil slice_def del: append.simps)
    apply (rule sublist_trim_walk)
    apply ((rule mid_here; (simp add: trimStart_def trimEnd_def js_space_def; fail))
           | rule mid_walk)+
    done
qed

lemma recommendationsComponent_take:
  assumes "items block = Some its"
  shows "recommendationsComponent block tokens =
           recommendationsComponent (block \<lparr> items := Some (take 3 its) \<rparr>) tokens"
proof (cases its)
  case Nil
  with assms show ?thesis by (simp add: recommendationsComponent_def)
next
  case (Cons x ys)
  with assms show ?thesis
    unfolding recommendationsComponent_def
    by (simp add: Let_def slice_def del: append.simps)
qed

lemma sample_item_markup_free: "item_markup_free (sample_item ''1'')"
  "item_markup_free (sample_item ''2'')" "item_markup_free (sample_item ''3'')"
  "item_markup_free (sample_item ''4'')" "item_markup_free (sample_item ''5'')"
  by (simp_all add: item_markup_free_def sample_item_def markup_free_def js_str_def)

text \<open>
  C4. A Recommendations block renders the first three items of its item sequence and no
  others, however many were supplied: the fragment is that of the block cut to its
  first three items, and it contains the columns of these items in order, one after
  the other. Counted by their opening tags, for tokens and texts that bring no markup
  of their own, the number of product columns is the smaller of three and the number of
  items supplied; five items give three columns.
\<close>

theorem recommendations_render_first_three:
  assumes "items block = Some its"
  shows "recommendationsComponent block tokens =
           recommendationsComponent (block \<lparr> items := Some (take 3 its) \<rparr>) tokens
         \<and> sublist (concat (map (recommendations_column tokens) (take 3 its)))
             (recommendationsComponent block tokens)
         \<and> (tokens_markup_free tokens \<and> markup_free (js_str (title block))
              \<and> (\<forall>it\<in>set (take 3 its). item_markup_free it) \<longrightarrow>
            occurrences product_column_open (recommendationsComponent block tokens) =
              min 3 (length its))"
  using recommendationsComponent_count [OF assms]
    recommendationsComponent_columns [OF assms]
    recommendationsComponent_take [OF assms]
  by blast

theorem recommendations_render_first_three_witness:
  "length five_items = 5
   \<and> sublist (concat (map (recommendations_column defaultTokens) (take 3 five_items)))
       (recommendationsComponent recommendations_block defaultTokens)
   \<and> occurrences product_column_open
       (recommendationsComponent recommendations_block defaultTokens) = 3"
proof -
  have 1: "items recommendations_block = Some five_items"
    by (simp add: recommendations_block_def blank_block_def)
  have 3: "length five_items = 5"
    by (simp add: five_items_def)
  have 4: "markup_free (js_str (title recommendations_block))"
    by (simp add: recommendations_block_def blank_block_def markup_free_def js_str_def)
  have 5: "\<forall>it\<in>set (take 3 five_items). item_markup_free it"
    by (simp add: five_items_def sample_item_markup_free)
  note inst = recommendations_render_first_three
    [where block = recommendations_block and tokens = defaultTokens, OF 1]
  have "occurrences product_column_open
          (recommendationsComponent recommendations_block defaultTokens) =
          min 3 (length five_items)"
    using inst [THEN conjunct2, THEN conjunct2] tokens_markup_free_default 4 5 by blast
  with 3 inst [THEN conjunct2, THEN conjunct1] show ?thesis by simp
qed

text \<open>
  C10. An Items block with a non-empty item sequence renders every item: the fragment
  contains the columns of all items in order, one after the other. Counted by their
  opening tags, for tokens and texts that bring no markup of their own, the number of
  product columns is the number of items supplied, whatever that number is; five items
  give five columns.
\<close>

theorem items_render_every_item:
  assumes "items block = Some its" and "its \<noteq> []"
  shows "sublist (concat (map (items_column tokens) its)) (itemsComponent block tokens)
         \<and> (tokens_markup_free tokens \<and> markup_free (js_str (title block))
              \<and> (\<forall>it\<in>set its. item_markup_free it) \<longrightarrow>
            occurrences product_column_open (itemsComponent block tokens) = length its)"
  using itemsComponent_count [OF assms] itemsComponent_columns [OF assms]
  by blast

theorem items_render_every_item_witness:
  "length five_items = 5
   \<and> sublist (concat (map (items_column defaultTokens) five_items))
       (itemsComponent items_block defaultTokens)
   \<and> occurrences product_column_open (itemsComponent items_block defaultTokens) = 5"
proof -
  have 1: "items items_block = Some five_items"
    by (simp add: items_block_def blank_block_def)
  have 2: "five_items \<noteq> []" and 3: "length five_items = 5"
    by (simp_all add: five_items_def)
  have 4: "markup_free (js_str (title items_block))"
    by (simp add: items_block_def blank_block_def markup_free_def js_str_def)
  have 5: "\<forall>it\<in>set five_items. item_markup_free it"
    by (simp add: five_items_def sample_item_markup_free)
  note inst = items_render_every_item
    [where block = items_block and tokens = defaultTokens, OF 1 2]
  have "occurrences product_column_open (itemsComponent items_block defaultTokens) =
          length five_items"
    using inst [THEN conjunct2] tokens_markup_free_default 4 5 by blast
  with 3 inst [THEN conjunct1] show ?thesis by simp
qed

section \<open>Referenced assets\<close>

lemma sublist_trim_quoted:
  assumes "\<not> js_space c"
  shows \<open>sublist ((c # p) @ u @ ''"'') (trim s) \<longleftrightarrow> sublist ((c # p) @ u @ ''"'') s\<close>
  using sublist_trim [of c \<open>p @ u @ ''"''\<close> s] assms by (simp add: js_space_def)

lemma sublist_trans: "sublist a b \<Longrightarrow> sublist b c \<Longrightarrow> sublist a c"
  by (rule sublist_order.order_trans)

lemma heroComponent_ignores_customHtml:
  "heroComponent (block \<lparr> customHtml := c \<rparr>) tokens = heroComponent block tokens"
  unfolding heroComponent_def hero_image_def hero_subcopy_def
  by (simp del: append.simps)

lemma hero_image_src:
  assumes "truthy (block.imageUrl block)"
  shows \<open>sublist (''src="'' @ js_str (block.imageUrl block) @ ''"'') (hero_image block tokens)\<close>
  using assms unfolding hero_image_def
  apply (simp del: append.simps)
  apply ((rule sublist_match; (simp add: suffix_to_prefix; fail)) | rule sublist_walk)+
  done

lemma heroComponent_src:
  assumes "truthy (block.imageUrl block)"
  shows \<open>sublist (''src="'' @ js_str (block.imageUrl block) @ ''"'') (heroComponent block tokens)\<close>
  unfolding heroComponent_def
  apply (subst sublist_trim_quoted, simp add: js_space_def)
  apply (rule sublist_seg [OF hero_image_src [OF assms]] | rule sublist_walk)+
  done

lemma footerComponent_preferencesUrl:
  \<open>sublist (''<a href="'' @ js_str (preferencesUrl block) @ ''"'') (footerComponent block tokens)\<close>
  unfolding footerComponent_def
  apply (subst sublist_trim_quoted, simp add: js_space_def)
  apply ((rule sublist_match; (simp add: suffix_to_prefix; fail)) | rule sublist_walk)+
  done

lemma footerComponent_unsubscribeUrl:
  \<open>sublist (''<a href="'' @ js_str (unsubscribeUrl block) @ ''"'') (footerComponent block tokens)\<close>
  unfolding footerComponent_def
  apply (subst sublist_trim_quoted, simp add: js_space_def)
  apply ((rule sublist_match; (simp add: suffix_to_prefix; fail)) | rule sublist_walk)+
  done

lemma items_column_src:
  \<open>sublist (''src="'' @ js_str (item.imageUrl item) @ ''"'') (items_column tokens item)\<close>
  unfolding items_column_def
  by ((rule sublist_match; (simp add: suffix_to_prefix; fail)) | rule sublist_walk)+

lemma items_column_href:
  \<open>sublist (''href="'' @ js_str (url item) @ ''"'') (items_column tokens item)\<close>
  unfolding items_column_def
  by ((rule sublist_match; (simp add: suffix_to_prefix; fail)) | rule sublist_walk)+

lemma recommendations_column_src:
  \<open>sublist (''src="'' @ js_str (item.imageUrl item) @ ''"'')
     (recommendations_column tokens item)\<close>
  unfolding recommendations_column_def
  by ((rule sublist_match; (simp add: suffix_to_prefix; fail)) | rule sublist_walk)+

lemma recommendations_column_href:
  \<open>sublist (''href="'' @ js_str (url item) @ ''"'') (recommendations_column tokens item)\<close>
  unfolding recommendations_column_def
  by ((rule sublist_match; (simp add: suffix_to_prefix; fail)) | rule sublist_walk)+

lemma itemsComponent_item:
  assumes "items block = Some its" "it \<in> set its"
  shows "sublist (items_column tokens it) (itemsComponent block tokens)"
proof -
  from assms have "its \<noteq> []" by auto
  from itemsComponent_columns [OF assms(1) this] sublist_concat_member [OF assms(2)]
  show ?thesis by (blast intro: sublist_trans)
qed

lemma recommendationsComponent_item:
  assumes "items block = Some its" "it \<in> set (take 3 its)"
  shows "sublist (recommendations_column tokens it) (recommendationsComponent block tokens)"
proof -
  from recommendationsComponent_columns [OF assms(1)] sublist_concat_member [OF assms(2)]
  show ?thesis by (blast intro: sublist_trans)
qed

lemma not_in_trim: "c \<notin> set s \<Longrightarrow> c \<notin> set (trim s)"
  using set_trim by blast

lemma custom_hero_chars:
  "CHR ''!'' \<notin> set (heroComponent custom_hero_block defaultTokens)"
proof -
  have parts: "CHR ''!'' \<notin> set (hero_image custom_hero_block defaultTokens)"
    "CHR ''!'' \<notin> set (hero_subcopy custom_hero_block defaultTokens)"
    unfolding hero_image_def hero_subcopy_def custom_hero_block_def blank_block_def
      defaultTokens_def
    by (simp_all add: truthy_def js_str_def del: append.simps)
  have vals: "js_str (headline custom_hero_block) = ''H''"
    "surface (colors defaultTokens) = ''#ffffff''"
    "size_tok (heading (fonts defaultTokens)) = ''24px''"
    "weight (heading (fonts defaultTokens)) = ''700''"
    "lineHeight (heading (fonts defaultTokens)) = ''1.2''"
    "text_tok (colors defaultTokens) = ''#1e293b''"
    "md (spacing defaultTokens) = ''16px''"
    by (simp_all add: custom_hero_block_def blank_block_def defaultTokens_def js_str_def)
  show ?thesis
    unfolding heroComponent_def
    by (rule not_in_trim) (simp add: parts vals del: append.simps)
qed

text \<open>
  The URL fields that the components read are copied unchanged into the fragments, as
  the value of a \<open>src\<close> or \<open>href\<close> attribute: a non-empty Hero \<open>imageUrl\<close>, the
  Footer's \<open>preferencesUrl\<close> and \<open>unsubscribeUrl\<close>, and the \<open>imageUrl\<close> and \<open>url\<close> of
  every item of an Items block and of the first three items of a Recommendations
  block.
\<close>

lemma rendered_urls_verbatim:
  \<open>(truthy (block.imageUrl block) \<longrightarrow>
        sublist (''src="'' @ js_str (block.imageUrl block) @ ''"'') (heroComponent block tokens))
   \<and> sublist (''<a href="'' @ js_str (preferencesUrl block) @ ''"'')
        (footerComponent block tokens)
   \<and> sublist (''<a href="'' @ js_str (unsubscribeUrl block) @ ''"'')
        (footerComponent block tokens)
   \<and> (\<forall>its. items block = Some its \<longrightarrow>
        (\<forall>it\<in>set its.
           sublist (''src="'' @ js_str (item.imageUrl it) @ ''"'') (itemsComponent block tokens)
           \<and> sublist (''href="'' @ js_str (url it) @ ''"'') (itemsComponent block tokens)))
   \<and> (\<forall>its. items block = Some its \<longrightarrow>
        (\<forall>it\<in>set (take 3 its).
           sublist (''src="'' @ js_str (item.imageUrl it) @ ''"'')
             (recommendationsComponent block tokens)
           \<and> sublist (''href="'' @ js_str (url it) @ ''"'')
             (recommendationsComponent block tokens)))\<close>
proof (intro conjI allI impI ballI)
  show \<open>sublist (''src="'' @ js_str (block.imageUrl block) @ ''"'') (heroComponent block tokens)\<close>
    if "truthy (block.imageUrl block)"
    using that by (rule heroComponent_src)
  show \<open>sublist (''<a href="'' @ js_str (preferencesUrl block) @ ''"'')
          (footerComponent block tokens)\<close>
    by (rule footerComponent_preferencesUrl)
  show \<open>sublist (''<a href="'' @ js_str (unsubscribeUrl block) @ ''"'')
          (footerComponent block tokens)\<close>
    by (rule footerComponent_unsubscribeUrl)
  show \<open>sublist (''src="'' @ js_str (item.imageUrl it) @ ''"'') (itemsComponent block tokens)\<close>
    if "items block = Some its" "it \<in> set its" for its it
    by (rule sublist_trans [OF items_column_src itemsComponent_item [OF that]])
  show \<open>sublist (''href="'' @ js_str (url it) @ ''"'') (itemsComponent block tokens)\<close>
    if "items block = Some its" "it \<in> set its" for its it
    by (rule sublist_trans [OF items_column_href itemsComponent_item [OF that]])
  show \<open>sublist (''src="'' @ js_str (item.imageUrl it) @ ''"'')
          (recommendationsComponent block tokens)\<close>
    if "items block = Some its" "it \<in> set (take 3 its)" for its it
    by (rule sublist_trans [OF recommendations_column_src recommendationsComponent_item [OF that]])
  show \<open>sublist (''href="'' @ js_str (url it) @ ''"'') (recommendationsComponent block tokens)\<close>
    if "items block = Some its" "it \<in> set (take 3 its)" for its it
    by (rule sublist_trans [OF recommendations_column_href recommendationsComponent_item [OF that]])
qed

text \<open>
  C3 says that the non-empty \<open>customHtml\<close> of a Hero block is included verbatim in the
  compiled output, and the producer of documents places an uploaded HTML template
  there for direct rendering. The code does not do it: \<open>heroComponent\<close> reads
  \<open>headline\<close>, \<open>subcopy\<close> and \<open>imageUrl\<close> only, and the Hero block that carries the custom
  HTML \<open><b>Sale!</b>\<close> compiles to a fragment in which that text does not occur.
\<close>

theorem customHtml_not_rendered:
  "customHtml custom_hero_block = Some ''<b>Sale!</b>''
   \<and> \<not> sublist ''<b>Sale!</b>'' (heroComponent custom_hero_block defaultTokens)"
proof
  show "customHtml custom_hero_block = Some ''<b>Sale!</b>''"
    by (simp add: custom_hero_block_def blank_block_def)
  show "\<not> sublist ''<b>Sale!</b>'' (heroComponent custom_hero_block defaultTokens)"
    by (rule not_sublist_by_char [OF _ custom_hero_chars]) simp
qed

section \<open>Document assembly: order of the fragments and warnings\<close>

lemma join_Cons: "bs \<noteq> [] \<Longrightarrow> join sep (x # bs) = x @ sep @ join sep bs"
  by (cases bs) auto

lemma join_split_left:
  assumes "bs \<noteq> []"
  shows "\<exists>p. join sep (as @ x # bs) = p @ x @ sep @ join sep bs"
proof (cases "as = []")
  case True
  then show ?thesis
    by (intro exI [of _ "[]"]) (use assms in \<open>simp add: join_Cons\<close>)
next
  case False
  then show ?thesis
    by (intro exI [of _ "join sep as @ sep"]) (use assms in \<open>simp add: join_split\<close>)
qed

lemma join_split_right: "\<exists>q. join sep (as @ x # bs) = join sep as @ (if as = [] then [] else sep) @ x @ q"
  by (simp add: join_split)

lemma join_two:
  "\<exists>p1 p2 p3. join sep (as @ x # ms @ y # cs) = p1 @ x @ p2 @ y @ p3"
proof -
  obtain p where 1: "join sep (as @ x # (ms @ y # cs)) = p @ x @ sep @ join sep (ms @ y # cs)"
    using join_split_left [of "ms @ y # cs" sep as x] by auto
  obtain q where 2: "join sep (ms @ y # cs) = join sep ms @ (if ms = [] then [] else sep) @ y @ q"
    using join_split_right [of sep ms y cs] by blast
  have "join sep (as @ x # ms @ y # cs) =
          p @ x @ (sep @ join sep ms @ (if ms = [] then [] else sep)) @ y @ q"
    using 1 2 by simp
  then show ?thesis by blast
qed

lemma split_two:
  assumes "i < j" "j < length bs"
  shows "\<exists>as ms cs. bs = as @ bs ! i # ms @ bs ! j # cs"
proof -
  from assms have i: "i < length bs" by simp
  let ?ds = "drop (Suc i) bs"
  from assms have k: "j - Suc i < length ?ds" by simp
  from assms have nth: "?ds ! (j - Suc i) = bs ! j" by simp
  have "bs = take i bs @ bs ! i # ?ds"
    using i by (simp add: id_take_nth_drop)
  moreover have "?ds = take (j - Suc i) ?ds @ bs ! j # drop (Suc (j - Suc i)) ?ds"
    using id_take_nth_drop [OF k] nth by simp
  ultimately show ?thesis by metis
qed

lemma generateMJML_blocks:
  assumes "blocks template = Some bs"
  shows "\<exists>out. generateMJML template =
           Inr (out, concat (map (\<lambda>b. snd (compile_block
                  (loadDesignTokens (templateType template)) b)) bs))
         \<and> sublist (join ''\<newline>'' (map (\<lambda>b. fst (compile_block
                  (loadDesignTokens (templateType template)) b)) bs)) out"
  using assms unfolding generateMJML_def
  apply (simp add: Let_def comp_def del: append.simps)
  apply (rule sublist_trim_walk)
  apply ((rule mid_here; (simp add: trimStart_def trimEnd_def js_space_def; fail))
         | rule mid_walk)+
  done

text \<open>
  C6. For a document whose \<open>blocks\<close> is a sequence, \<open>generateMJML\<close> returns a markup that
  contains the fragments of the blocks joined by line feeds in document order; hence
  for two blocks the fragment of the earlier one stands in the markup before the
  fragment of the later one.
\<close>

theorem fragments_in_document_order:
  assumes "blocks template = Some bs"
  shows "\<exists>out log. generateMJML template = Inr (out, log)
         \<and> sublist (join ''\<newline>'' (map (\<lambda>b. fst (compile_block
                  (loadDesignTokens (templateType template)) b)) bs)) out
         \<and> (\<forall>i j. i < j \<longrightarrow> j < length bs \<longrightarrow>
              (\<exists>pre mid post. out =
                 pre @ fst (compile_block (loadDesignTokens (templateType template)) (bs ! i))
                 @ mid @ fst (compile_block (loadDesignTokens (templateType template)) (bs ! j))
                 @ post))"
proof -
  let ?f = "\<lambda>b. fst (compile_block (loadDesignTokens (templateType template)) b)"
  from generateMJML_blocks [OF assms] obtain out log where
    out: "generateMJML template = Inr (out, log)" "sublist (join ''\<newline>'' (map ?f bs)) out"
    by blast
  from out(2) obtain ps ss where ps: "out = ps @ join ''\<newline>'' (map ?f bs) @ ss"
    unfolding sublist_def by blast
  have "\<exists>pre mid post. out = pre @ ?f (bs ! i) @ mid @ ?f (bs ! j) @ post"
    if "i < j" "j < length bs" for i j
  proof -
    from split_two [OF that] obtain as ms cs where "bs = as @ bs ! i # ms @ bs ! j # cs"
      by blast
    then have "map ?f bs = map ?f (as @ bs ! i # ms @ bs ! j # cs)"
      by (rule arg_cong)
    then have m: "map ?f bs = map ?f as @ ?f (bs ! i) # map ?f ms @ ?f (bs ! j) # map ?f cs"
      by (simp only: map_append list.map)
    obtain p1 p2 p3 where
      "join ''\<newline>'' (map ?f bs) = p1 @ ?f (bs ! i) @ p2 @ ?f (bs ! j) @ p3"
      unfolding m using join_two by blast
    with ps have "out = (ps @ p1) @ ?f (bs ! i) @ p2 @ ?f (bs ! j) @ (p3 @ ss)" by simp
    then show ?thesis by blast
  qed
  with out show ?thesis by blast
qed

theorem fragments_in_document_order_witness:
  "\<exists>out log. generateMJML (document [footer_block, hero_block]) = Inr (out, log)
     \<and> (\<exists>pre mid post. out =
           pre @ footerComponent footer_block (loadDesignTokens (Some ''cart_abandon''))
           @ mid @ heroComponent hero_block (loadDesignTokens (Some ''cart_abandon''))
           @ post)"
proof -
  have b: "blocks (document [footer_block, hero_block]) = Some [footer_block, hero_block]"
    and t: "templateType (document [footer_block, hero_block]) = Some ''cart_abandon''"
    by (simp_all add: document_def)
  have f: "fst (compile_block tokens footer_block) = footerComponent footer_block tokens"
    and h: "fst (compile_block tokens hero_block) = heroComponent hero_block tokens"
    for tokens
    by (simp_all add: compile_block_def footer_block_def hero_block_def blank_block_def)
  from fragments_in_document_order [OF b] obtain out log where
    out: "generateMJML (document [footer_block, hero_block]) = Inr (out, log)"
    and ord: "\<forall>i j. i < j \<longrightarrow> j < length [footer_block, hero_block] \<longrightarrow>
              (\<exists>pre mid post. out =
                 pre @ fst (compile_block (loadDesignTokens
                       (templateType (document [footer_block, hero_block])))
                       ([footer_block, hero_block] ! i))
                 @ mid @ fst (compile_block (loadDesignTokens
                       (templateType (document [footer_block, hero_block])))
                       ([footer_block, hero_block] ! j))
                 @ post)"
    by blast
  from ord [rule_format, of 0 1] have
    "\<exists>pre mid post. out =
       pre @ footerComponent footer_block (loadDesignTokens (Some ''cart_abandon''))
       @ mid @ heroComponent hero_block (loadDesignTokens (Some ''cart_abandon''))
       @ post"
    by (simp add: t f h)
  with out show ?thesis by blast
qed

section \<open>Unrecognised block types\<close>

lemma compile_block_unknown:
  assumes "type b \<notin> Some ` set known_block_types"
  shows "compile_block tokens b =
           ([], [(WarnLevel, ''Unknown block type: '' @ js_str (type b), [])])"
  using assms by (simp add: compile_block_def known_block_types_def)

lemma compile_block_known:
  assumes "type b \<in> Some ` set known_block_types"
  shows "snd (compile_block tokens b) = []"
  using assms by (auto simp: compile_block_def known_block_types_def)

lemma console_of_blocks:
  "concat (map (\<lambda>b. snd (compile_block tokens b)) bs) =
     map (\<lambda>b. (WarnLevel, ''Unknown block type: '' @ js_str (type b), []))
       (filter (\<lambda>b. type b \<notin> Some ` set known_block_types) bs)"
proof (induction bs)
  case Nil
  then show ?case by simp
next
  case (Cons b bs)
  then show ?case
    by (cases "type b \<in> Some ` set known_block_types")
      (simp_all add: compile_block_known compile_block_unknown)
qed

lemma generateMJML_no_blocks:
  "blocks template = None \<Longrightarrow> generateMJML template = Inl TypeError"
  by (simp add: generateMJML_def)

lemma generateMJML_Inr_blocks:
  "generateMJML template = Inr r \<Longrightarrow> blocks template \<noteq> None"
  using generateMJML_no_blocks by fastforce

lemma template_rebuild:
  "\<lparr> locale_id = locale_id t, templateType = templateType t, subject = subject t,
     preheader = preheader t, blocks = blocks t \<rparr> = (t :: template)"
  by simp

lemma render_handler_success:
  assumes "truthy (templateType template)" "generateMJML template = Inr (out, log)"
    "mjml out = Inr r"
  shows "fst (render_handler mjml template) =
           \<lparr> status = 200,
             json = RenderBody out (html r) (case errors r of None \<Rightarrow> [] | Some es \<Rightarrow> es) \<rparr>"
  using assms generateMJML_Inr_blocks [OF assms(2)]
  by (simp add: render_handler_def template_rebuild)

text \<open>
  C2 as it is stated fails on the response: for a document whose only block has the
  unrecognised type \<open>video\<close>, and a library that reports no error, the render is
  answered with an empty list of warnings.
\<close>

theorem unknown_block_warning_not_in_response:
  "response_warnings (fst (render_handler accepting_mjml (document [video_block]))) = Some []"
proof -
  have "blocks (document [video_block]) = Some [video_block]"
    by (simp add: document_def)
  from generateMJML_blocks [OF this] obtain out log where
    "generateMJML (document [video_block]) = Inr (out, log)"
    by blast
  moreover have "truthy (templateType (document [video_block]))"
    by (simp add: document_def truthy_def)
  moreover have "accepting_mjml out = Inr \<lparr> html = out, errors = Some [] \<rparr>"
    by (simp add: accepting_mjml_def)
  ultimately show ?thesis
    using render_handler_success
      [where template = "document [video_block]" and mjml = accepting_mjml and out = out
         and log = log and r = "\<lparr> html = out, errors = Some [] \<rparr>"]
    by (simp add: response_warnings_def)
qed

text \<open>
  C2, as the code has it. For a document whose \<open>blocks\<close> is a sequence of block objects
  \<open>generateMJML\<close> returns normally. Each block whose type is none of hero, items, recommendations and
  footer compiles to the empty fragment and to one \<open>console.warn\<close> call that names the
  type, so the console holds one such line per unrecognised block, in document order,
  and nothing else. The warning goes to the console only: the \<open>warnings\<close> of the
  response are the errors that the MJML library reports, whatever the blocks were.
\<close>

theorem unknown_block_warns_on_console:
  assumes "blocks template = Some bs"
  shows "(\<exists>out. generateMJML template =
            Inr (out, map (\<lambda>b. (WarnLevel, ''Unknown block type: '' @ js_str (type b), []))
                        (filter (\<lambda>b. type b \<notin> Some ` set known_block_types) bs))
          \<and> (\<forall>mjml r. truthy (templateType template) \<longrightarrow> mjml out = Inr r \<longrightarrow>
                response_warnings (fst (render_handler mjml template)) =
                  Some (case errors r of None \<Rightarrow> [] | Some es \<Rightarrow> es)))
         \<and> (\<forall>b\<in>set bs. type b \<notin> Some ` set known_block_types \<longrightarrow>
               compile_block (loadDesignTokens (templateType template)) b =
                 ([], [(WarnLevel, ''Unknown block type: '' @ js_str (type b), [])]))"
proof -
  from generateMJML_blocks [OF assms] obtain out where
    out: "generateMJML template =
            Inr (out, map (\<lambda>b. (WarnLevel, ''Unknown block type: '' @ js_str (type b), []))
                        (filter (\<lambda>b. type b \<notin> Some ` set known_block_types) bs))"
    unfolding console_of_blocks by blast
  have "response_warnings (fst (render_handler mjml template)) =
          Some (case errors r of None \<Rightarrow> [] | Some es \<Rightarrow> es)"
    if "truthy (templateType template)" "mjml out = Inr r" for mjml r
    using render_handler_success [where mjml = mjml and r = r, OF that(1) out that(2)]
    by (simp add: response_warnings_def)
  with out show ?thesis
    by (auto simp: compile_block_unknown)
qed

theorem unknown_block_warns_on_console_witness:
  "(\<exists>out. generateMJML (document [hero_block, video_block, footer_block]) =
      Inr (out, [(WarnLevel, ''Unknown block type: video'', [])])
      \<and> response_warnings
          (fst (render_handler accepting_mjml
                 (document [hero_block, video_block, footer_block]))) = Some [])
   \<and> compile_block (loadDesignTokens (Some ''cart_abandon'')) video_block =
       ([], [(WarnLevel, ''Unknown block type: video'', [])])"
proof -
  let ?doc = "document [hero_block, video_block, footer_block]"
  have b: "blocks ?doc = Some [hero_block, video_block, footer_block]"
    and t: "templateType ?doc = Some ''cart_abandon''" "truthy (templateType ?doc)"
    by (simp_all add: document_def truthy_def)
  have k: "type hero_block \<in> Some ` set known_block_types"
    "type footer_block \<in> Some ` set known_block_types"
    "type video_block \<notin> Some ` set known_block_types"
    "js_str (type video_block) = ''video''"
    by (simp_all add: hero_block_def footer_block_def video_block_def blank_block_def
          known_block_types_def js_str_def)
  have a: "accepting_mjml out = Inr \<lparr> html = out, errors = Some [] \<rparr>" for out
    by (simp add: accepting_mjml_def)
  note inst = unknown_block_warns_on_console [OF b]
  from inst [THEN conjunct1] obtain out where
    out: "generateMJML ?doc = Inr (out, [(WarnLevel, ''Unknown block type: video'', [])])"
    and resp: "\<forall>mjml r. truthy (templateType ?doc) \<longrightarrow> mjml out = Inr r \<longrightarrow>
                response_warnings (fst (render_handler mjml ?doc)) =
                  Some (case errors r of None \<Rightarrow> [] | Some es \<Rightarrow> es)"
    by (auto simp: k)
  from resp [rule_format, of accepting_mjml "\<lparr> html = out, errors = Some [] \<rparr>", OF t(2) a] have
    "response_warnings (fst (render_handler accepting_mjml ?doc)) = Some []"
    by simp
  moreover from inst [THEN conjunct2, rule_format, of video_block] have
    "compile_block (loadDesignTokens (Some ''cart_abandon'')) video_block =
       ([], [(WarnLevel, ''Unknown block type: video'', [])])"
    by (simp add: k t)
  ultimately show ?thesis using out by blast
qed

end
